theory Spec2Isabelle
  imports Main
begin

section \<open>JavaScript values as the handlers see them\<close>

text \<open>
  The server (\<^verbatim>\<open>src/Server/index.js\<close>) reads \<^verbatim>\<open>req.body\<close>, the object that
  \<^verbatim>\<open>express.json()\<close> parsed, and applies \<^verbatim>\<open>!\<close>, \<^verbatim>\<open>!!\<close>, \<^verbatim>\<open>String(...)\<close>,
  \<^verbatim>\<open>.trim()\<close> and \<^verbatim>\<open>.toLowerCase()\<close> to its fields. A field can hold any JSON
  value, so the values are modelled in full.

  The handlers observe a number only through \<^verbatim>\<open>!\<close> and \<^verbatim>\<open>String\<close>. A number is
  therefore \<open>NaN\<close>, \<open>Zero\<close> (\<open>0\<close> and \<open>-0\<close>, which agree under both) or
  \<open>Nonzero s\<close>, a number other than these given by the string that
  \<^verbatim>\<open>Number.prototype.toString\<close> prints for it: \<open>Nonzero ''42''\<close>,
  \<open>Nonzero ''0.5''\<close>, \<open>Nonzero ''1e+21''\<close>, \<open>Nonzero ''-Infinity''\<close>. Every double
  has such a value, whatever its size or fraction.
\<close>

datatype jsnum = NaN | Zero | Nonzero string

datatype jsval =
    JUndefined
  | JNull
  | JBool bool
  | JNum jsnum
  | JStr string
  | JArr "jsval list"
  | JObj "(string \<times> jsval) list"

datatype exn = TypeError | CastError | StoreError

text \<open>ECMAScript \<^verbatim>\<open>ToBoolean\<close>: what \<^verbatim>\<open>!!v\<close> evaluates to.\<close>

fun ToBoolean :: "jsval \<Rightarrow> bool" where
  "ToBoolean JUndefined = False"
| "ToBoolean JNull = False"
| "ToBoolean (JBool b) = b"
| "ToBoolean (JNum NaN) = False"
| "ToBoolean (JNum Zero) = False"
| "ToBoolean (JNum (Nonzero s)) = True"
| "ToBoolean (JStr s) = (s \<noteq> [])"
| "ToBoolean (JArr xs) = True"
| "ToBoolean (JObj kvs) = True"

subsection \<open>Printing numbers\<close>

text \<open>
  \<^verbatim>\<open>Date.now()\<close> is an integer number of milliseconds, at most 8.64e15 in absolute
  value; \<^verbatim>\<open>String\<close> prints such a number as its decimal digits, with a minus sign
  when it is negative.
\<close>

definition digit_char :: "nat \<Rightarrow> char" where
  "digit_char d = ''0123456789'' ! d"

fun digits10 :: "nat \<Rightarrow> string" where
  "digits10 n = (if n < 10 then [digit_char n] else digits10 (n div 10) @ [digit_char (n mod 10)])"

declare digits10.simps [simp del]

definition int_to_string :: "int \<Rightarrow> string" where
  "int_to_string i = (if i < 0 then CHR ''-'' # digits10 (nat (- i)) else digits10 (nat i))"

fun Number_toString :: "jsnum \<Rightarrow> string" where
  "Number_toString NaN = ''NaN''"
| "Number_toString Zero = ''0''"
| "Number_toString (Nonzero s) = s"

subsection \<open>\<^verbatim>\<open>String(v)\<close>\<close>

text \<open>
  \<^verbatim>\<open>String(v)\<close> is \<^verbatim>\<open>ToString\<close>. On an array it is \<^verbatim>\<open>Array.prototype.join\<close>: the
  elements' strings separated by commas, \<^verbatim>\<open>null\<close> and \<^verbatim>\<open>undefined\<close> printing as
  the empty string. On a plain object it is \<^verbatim>\<open>"[object Object]"\<close>, unless the parsed
  object has an own key \<^verbatim>\<open>toString\<close>: its value is JSON, hence not callable, the
  inherited \<^verbatim>\<open>valueOf\<close> returns the object itself, and the conversion throws a
  \<^verbatim>\<open>TypeError\<close>.
\<close>

fun ToString :: "jsval \<Rightarrow> exn + string"
  and join :: "jsval list \<Rightarrow> exn + string"
  and join_element :: "jsval \<Rightarrow> exn + string" where
  "ToString JUndefined = Inr ''undefined''"
| "ToString JNull = Inr ''null''"
| "ToString (JBool b) = Inr (if b then ''true'' else ''false'')"
| "ToString (JNum n) = Inr (Number_toString n)"
| "ToString (JStr s) = Inr s"
| "ToString (JArr xs) = join xs"
| "ToString (JObj kvs) =
     (if ''toString'' \<in> set (map fst kvs) then Inl TypeError else Inr ''[object Object]'')"
| "join [] = Inr []"
| "join [x] = join_element x"
| "join (x # y # ys) =
     (case join_element x of
        Inl e \<Rightarrow> Inl e
      | Inr s \<Rightarrow> (case join (y # ys) of Inl e \<Rightarrow> Inl e | Inr r \<Rightarrow> Inr (s @ '','' @ r)))"
| "join_element JUndefined = Inr []"
| "join_element JNull = Inr []"
| "join_element (JBool b) = ToString (JBool b)"
| "join_element (JNum n) = ToString (JNum n)"
| "join_element (JStr s) = ToString (JStr s)"
| "join_element (JArr xs) = ToString (JArr xs)"
| "join_element (JObj kvs) = ToString (JObj kvs)"

subsection \<open>Strings\<close>

text \<open>
  A \<open>string\<close> is a list of code units below 256 (the Latin-1 range). There
  \<^verbatim>\<open>toLowerCase\<close> maps \<open>A\<close>..\<open>Z\<close> and the accented capitals \<open>0xC0\<close>..\<open>0xDE\<close>
  (but the multiplication sign \<open>0xD7\<close>) to the letter 32 places up, and
  \<^verbatim>\<open>trim\<close> strips TAB, LF, VT, FF, CR, SPACE and NBSP from both ends.
\<close>

definition lower_char :: "char \<Rightarrow> char" where
  "lower_char c =
     (let n = (of_char c :: nat) in
      if (65 \<le> n \<and> n \<le> 90) \<or> (192 \<le> n \<and> n \<le> 222 \<and> n \<noteq> 215) then char_of (n + 32) else c)"

definition toLowerCase :: "string \<Rightarrow> string" where
  "toLowerCase s = map lower_char s"

definition is_white :: "char \<Rightarrow> bool" where
  "is_white c = ((of_char c :: nat) \<in> {9, 10, 11, 12, 13, 32, 160})"

definition trim :: "string \<Rightarrow> string" where
  "trim s = rev (dropWhile is_white (rev (dropWhile is_white s)))"

section \<open>Data model\<close>

text \<open>
  An entry of \<^verbatim>\<open>inMemoryTodos\<close>. \<^verbatim>\<open>POST /add\<close> builds
  \<^verbatim>\<open>{ _id, task, priority }\<close>, so \<^verbatim>\<open>completed\<close> is a property the object
  may lack: \<open>None\<close> is the absent property (\<^verbatim>\<open>undefined\<close>).
\<close>

record todo =
  todo_id :: string
  todo_task :: string
  todo_completed :: "bool option"
  todo_priority :: string

text \<open>The object \<^verbatim>\<open>update\<close> of \<^verbatim>\<open>PATCH /update/:id\<close>: each key is set or absent.\<close>

record update =
  update_task :: "string option"
  update_completed :: "bool option"
  update_priority :: "string option"

text \<open>\<^verbatim>\<open>Object.keys(update).length\<close>\<close>

definition keys_length :: "update \<Rightarrow> nat" where
  "keys_length u =
     (if update_task u = None then 0 else 1) + (if update_completed u = None then 0 else 1)
     + (if update_priority u = None then 0 else 1)"

text \<open>\<^verbatim>\<open>Object.assign({}, t, update)\<close>: the keys of \<open>update\<close> override those of \<open>t\<close>.\<close>

definition assign :: "todo \<Rightarrow> update \<Rightarrow> todo" where
  "assign t u =
     \<lparr>todo_id = todo_id t,
      todo_task = (case update_task u of None \<Rightarrow> todo_task t | Some x \<Rightarrow> x),
      todo_completed = (case update_completed u of None \<Rightarrow> todo_completed t | Some c \<Rightarrow> Some c),
      todo_priority = (case update_priority u of None \<Rightarrow> todo_priority t | Some p \<Rightarrow> p)\<rparr>"

text \<open>
  \<^verbatim>\<open>req.body\<close>: the parsed JSON object, each key once. Reading a key the object
  lacks gives \<^verbatim>\<open>undefined\<close>.
\<close>

type_synonym body = "(string \<times> jsval) list"

definition body_get :: "body \<Rightarrow> string \<Rightarrow> jsval" where
  "body_get b k = (case map_of b k of None \<Rightarrow> JUndefined | Some v \<Rightarrow> v)"

text \<open>
  \<^verbatim>\<open>TodoModel\<close> (\<^verbatim>\<open>src/Server/Models/Todo.js\<close>) is a Mongoose model: the calls the
  handlers make on it are parameters of the model, over a database state \<open>'db\<close> and
  documents \<open>'doc\<close> that the handlers never look into. A call returns its value or
  throws; the writing calls also return the new database state.
  \<open>TodoModel_findById\<close> takes the created document whose \<^verbatim>\<open>_id\<close> is looked up.
\<close>

record ('db, 'doc) driver =
  TodoModel_find :: "'db \<Rightarrow> exn + 'doc list"
  TodoModel_create :: "string \<Rightarrow> string \<Rightarrow> 'db \<Rightarrow> (exn + 'doc) \<times> 'db"
  TodoModel_findById :: "'doc \<Rightarrow> 'db \<Rightarrow> exn + 'doc option"
  TodoModel_findByIdAndDelete :: "string \<Rightarrow> 'db \<Rightarrow> (exn + 'doc option) \<times> 'db"
  TodoModel_findByIdAndUpdate :: "string \<Rightarrow> update \<Rightarrow> 'db \<Rightarrow> (exn + 'doc option) \<times> 'db"

text \<open>The process state: the two module variables and the database behind the driver.\<close>

record 'db state =
  useDb :: bool
  inMemoryTodos :: "todo list"
  db :: 'db

text \<open>What \<^verbatim>\<open>res.json\<close> is given, and the status it is sent with.\<close>

datatype 'doc payload =
    Todos "todo list"
  | Docs "'doc list"
  | Todo todo
  | Doc 'doc
  | Error string
  | Success
  | NoBody

type_synonym 'doc response = "nat \<times> 'doc payload"

abbreviation internal_error :: "'doc response" where
  "internal_error \<equiv> (500, Error ''Internal Server Error'')"

section \<open>The handlers\<close>

subsection \<open>\<^verbatim>\<open>GET /get\<close>\<close>

definition get_todos :: "('db, 'doc) driver \<Rightarrow> 'db state \<Rightarrow> 'doc response \<times> 'db state" where
  "get_todos drv s =
     (if useDb s then
        (case TodoModel_find drv (db s) of
           Inl e \<Rightarrow> (internal_error, s)
         | Inr todos \<Rightarrow> ((200, Docs todos), s))
      else ((200, Todos (inMemoryTodos s)), s))"

subsection \<open>\<^verbatim>\<open>POST /add\<close>\<close>

definition priorities :: "string list" where
  "priorities = [''low'', ''medium'', ''high'']"

text \<open>
  Lines 52-53: \<^verbatim>\<open>incoming\<close> is \<^verbatim>\<open>undefined\<close> or the lowercased string, and
  \<^verbatim>\<open>pr\<close> is \<^verbatim>\<open>incoming\<close> when it is truthy and in the list, else \<^verbatim>\<open>'medium'\<close>.
\<close>

definition incoming_priority :: "jsval \<Rightarrow> exn + string option" where
  "incoming_priority priority =
     (if priority = JUndefined then Inr None
      else case ToString priority of Inl e \<Rightarrow> Inl e | Inr p \<Rightarrow> Inr (Some (toLowerCase p)))"

definition pr_of :: "string option \<Rightarrow> string" where
  "pr_of incoming =
     (case incoming of
        None \<Rightarrow> ''medium''
      | Some i \<Rightarrow> if i \<noteq> [] \<and> i \<in> set priorities then i else ''medium'')"

text \<open>\<open>now\<close> is what \<^verbatim>\<open>Date.now()\<close> returns when the request is handled.\<close>

definition post_add ::
  "('db, 'doc) driver \<Rightarrow> int \<Rightarrow> body \<Rightarrow> 'db state \<Rightarrow> 'doc response \<times> 'db state" where
  "post_add drv now b s =
     (let task = body_get b ''task''; priority = body_get b ''priority'' in
      if \<not> ToBoolean task then ((400, Error ''task is required''), s)
      else
        (case ToString task of
           Inl e \<Rightarrow> (internal_error, s)
         | Inr str \<Rightarrow>
             (if trim str = [] then ((400, Error ''task is required''), s)
              else
                (case incoming_priority priority of
                   Inl e \<Rightarrow> (internal_error, s)
                 | Inr incoming \<Rightarrow>
                     (let pr = pr_of incoming in
                      if useDb s then
                        (case TodoModel_create drv (trim str) pr (db s) of
                           (Inl e, d) \<Rightarrow> (internal_error, s\<lparr>db := d\<rparr>)
                         | (Inr created, d) \<Rightarrow>
                             (case TodoModel_findById drv created d of
                                Inl e \<Rightarrow> (internal_error, s\<lparr>db := d\<rparr>)
                              | Inr (Some fetched) \<Rightarrow> ((200, Doc fetched), s\<lparr>db := d\<rparr>)
                              | Inr None \<Rightarrow> ((200, Doc created), s\<lparr>db := d\<rparr>)))
                      else
                        (let newTodo =
                               \<lparr>todo_id = int_to_string now, todo_task = trim str,
                                todo_completed = None, todo_priority = pr\<rparr>
                         in ((200, Todo newTodo),
                             s\<lparr>inMemoryTodos := inMemoryTodos s @ [newTodo]\<rparr>)))))))"

subsection \<open>\<^verbatim>\<open>DELETE /delete/:id\<close>\<close>

text \<open>
  Both \<^verbatim>\<open>t._id\<close> and \<^verbatim>\<open>id\<close> are strings here, so \<^verbatim>\<open>String\<close> leaves them as they
  are and the two tests of the filter are the same comparison.
\<close>

definition delete_todo ::
  "('db, 'doc) driver \<Rightarrow> string \<Rightarrow> 'db state \<Rightarrow> 'doc response \<times> 'db state" where
  "delete_todo drv id' s =
     (if id' = [] then ((400, Error ''id required''), s)
      else if useDb s then
        (case TodoModel_findByIdAndDelete drv id' (db s) of
           (Inl e, d) \<Rightarrow> (internal_error, s\<lparr>db := d\<rparr>)
         | (Inr None, d) \<Rightarrow> ((404, Error ''Not found''), s\<lparr>db := d\<rparr>)
         | (Inr (Some removed), d) \<Rightarrow> ((200, Success), s\<lparr>db := d\<rparr>))
      else
        let before_length = length (inMemoryTodos s);
            kept = filter (\<lambda>t. todo_id t \<noteq> id' \<and> todo_id t \<noteq> id') (inMemoryTodos s)
        in if length kept = before_length then ((404, Error ''Not found''), s\<lparr>inMemoryTodos := kept\<rparr>)
           else ((200, Success), s\<lparr>inMemoryTodos := kept\<rparr>))"

subsection \<open>\<^verbatim>\<open>PATCH /update/:id\<close>\<close>

text \<open>Lines 95-101: the object \<^verbatim>\<open>update\<close> built from the body, key by key.\<close>

definition build_update :: "body \<Rightarrow> exn + update" where
  "build_update b =
     (case (if body_get b ''task'' \<noteq> JUndefined
            then (case ToString (body_get b ''task'') of Inl e \<Rightarrow> Inl e | Inr str \<Rightarrow> Inr (Some (trim str)))
            else Inr None) of
        Inl e \<Rightarrow> Inl e
      | Inr tk \<Rightarrow>
          let cp = (if body_get b ''completed'' \<noteq> JUndefined
                    then Some (ToBoolean (body_get b ''completed'')) else None)
          in if body_get b ''priority'' \<noteq> JUndefined then
               (case ToString (body_get b ''priority'') of
                  Inl e \<Rightarrow> Inl e
                | Inr str \<Rightarrow>
                    let p = toLowerCase str in
                    Inr \<lparr>update_task = tk, update_completed = cp,
                         update_priority = (if p \<in> set priorities then Some p else None)\<rparr>)
             else Inr \<lparr>update_task = tk, update_completed = cp, update_priority = None\<rparr>)"

definition patch_update ::
  "('db, 'doc) driver \<Rightarrow> string \<Rightarrow> body \<Rightarrow> 'db state \<Rightarrow> 'doc response \<times> 'db state" where
  "patch_update drv id' b s =
     (case build_update b of
        Inl e \<Rightarrow> (internal_error, s)
      | Inr u \<Rightarrow>
          if keys_length u = 0 then ((400, Error ''nothing to update''), s)
          else if useDb s then
            (case TodoModel_findByIdAndUpdate drv id' u (db s) of
               (Inl e, d) \<Rightarrow> (internal_error, s\<lparr>db := d\<rparr>)
             | (Inr None, d) \<Rightarrow> ((404, Error ''Not found''), s\<lparr>db := d\<rparr>)
             | (Inr (Some updated), d) \<Rightarrow> ((200, Doc updated), s\<lparr>db := d\<rparr>))
          else
            let found = list_ex (\<lambda>t. todo_id t = id') (inMemoryTodos s);
                mapped = map (\<lambda>t. if todo_id t = id' then assign t u else t) (inMemoryTodos s)
            in if \<not> found then ((404, Error ''Not found''), s\<lparr>inMemoryTodos := mapped\<rparr>)
               else
                 ((200, case find (\<lambda>t. todo_id t = id') mapped of
                          Some t \<Rightarrow> Todo t
                        | None \<Rightarrow> NoBody),
                  s\<lparr>inMemoryTodos := mapped\<rparr>))"

section \<open>Requests and runs\<close>

datatype request =
    Get
  | Add int body
  | Delete string
  | Patch string body

fun handle :: "('db, 'doc) driver \<Rightarrow> request \<Rightarrow> 'db state \<Rightarrow> 'doc response \<times> 'db state" where
  "handle drv Get s = get_todos drv s"
| "handle drv (Add now b) s = post_add drv now b s"
| "handle drv (Delete id') s = delete_todo drv id' s"
| "handle drv (Patch id' b) s = patch_update drv id' b s"

text \<open>The state after a sequence of requests, handled one after the other.\<close>

fun run :: "('db, 'doc) driver \<Rightarrow> request list \<Rightarrow> 'db state \<Rightarrow> 'db state" where
  "run drv [] s = s"
| "run drv (r # rs) s = run drv rs (snd (handle drv r s))"

text \<open>The values that \<^verbatim>\<open>Date.now()\<close> took at the create requests of a sequence.\<close>

fun clocks :: "request list \<Rightarrow> int list" where
  "clocks [] = []"
| "clocks (Add now b # rs) = now # clocks rs"
| "clocks (r # rs) = clocks rs"

text \<open>
  \<^verbatim>\<open>start\<close>, lines 17-30: the store is chosen once. \<open>connected\<close> says whether
  \<^verbatim>\<open>MONGO_URI\<close> was set and \<^verbatim>\<open>mongoose.connect\<close> returned.
\<close>

definition start :: "bool \<Rightarrow> 'db \<Rightarrow> 'db state" where
  "start connected d = \<lparr>useDb = connected, inMemoryTodos = [], db = d\<rparr>"

text \<open>
  A stand-in for the database, to run the persistent branch at concrete inputs. The
  documents are kept in a list and numbered by a counter, their ids 24 hexadecimal
  digits; \<open>create\<close> fills in the schema default \<^verbatim>\<open>completed: false\<close> of
  \<^verbatim>\<open>Todo.js\<close>; and a lookup by an id that is not 24 hexadecimal digits throws, as
  Mongoose does when it cannot cast the id to an \<^verbatim>\<open>ObjectId\<close>.
\<close>

definition is_hex :: "char \<Rightarrow> bool" where
  "is_hex c = (c \<in> set ''0123456789abcdefABCDEF'')"

definition is_object_id :: "string \<Rightarrow> bool" where
  "is_object_id str = (length str = 24 \<and> list_all is_hex str)"

definition object_id :: "nat \<Rightarrow> string" where
  "object_id n = replicate (24 - length (digits10 n)) CHR ''0'' @ digits10 n"

definition stub :: "(nat \<times> todo list, todo) driver" where
  "stub =
     \<lparr>TodoModel_find = (\<lambda>(n, docs). Inr docs),
      TodoModel_create = (\<lambda>task pr (n, docs).
        let doc = \<lparr>todo_id = object_id n, todo_task = task, todo_completed = Some False,
                   todo_priority = pr\<rparr>
        in (Inr doc, (Suc n, docs @ [doc]))),
      TodoModel_findById = (\<lambda>created (n, docs).
        Inr (find (\<lambda>t. todo_id t = todo_id created) docs)),
      TodoModel_findByIdAndDelete = (\<lambda>id' (n, docs).
        if is_object_id id'
        then (Inr (find (\<lambda>t. todo_id t = id') docs), (n, filter (\<lambda>t. todo_id t \<noteq> id') docs))
        else (Inl CastError, (n, docs))),
      TodoModel_findByIdAndUpdate = (\<lambda>id' u (n, docs).
        if is_object_id id'
        then (Inr (map_option (\<lambda>t. assign t u) (find (\<lambda>t. todo_id t = id') docs)),
              (n, map (\<lambda>t. if todo_id t = id' then assign t u else t) docs))
        else (Inl CastError, (n, docs)))\<rparr>"

text \<open>The two fresh processes: without and with a database.\<close>

definition fresh :: "(nat \<times> todo list) state" where
  "fresh = start False (0, [])"

definition fresh_db :: "(nat \<times> todo list) state" where
  "fresh_db = start True (0, [])"

text \<open>The in-memory process after one todo was created at clock 1700000000000.\<close>

definition milk :: todo where
  "milk = \<lparr>todo_id = ''1700000000000'', todo_task = ''Buy milk'', todo_completed = None,
           todo_priority = ''medium''\<rparr>"

definition one_todo :: "(nat \<times> todo list) state" where
  "one_todo = \<lparr>useDb = False, inMemoryTodos = [milk], db = (0, [])\<rparr>"

text \<open>The process with a database after one todo was created.\<close>

definition milk_doc :: todo where
  "milk_doc = \<lparr>todo_id = ''000000000000000000000000'', todo_task = ''Buy milk'',
               todo_completed = Some False, todo_priority = ''medium''\<rparr>"

definition one_doc :: "(nat \<times> todo list) state" where
  "one_doc = \<lparr>useDb = True, inMemoryTodos = [], db = (1, [milk_doc])\<rparr>"

text \<open>The in-memory process after a second todo was created one millisecond later.\<close>

definition mum :: todo where
  "mum = \<lparr>todo_id = ''1700000000001'', todo_task = ''Call mum'', todo_completed = None,
          todo_priority = ''high''\<rparr>"

definition two_todos :: "(nat \<times> todo list) state" where
  "two_todos = \<lparr>useDb = False, inMemoryTodos = [milk, mum], db = (0, [])\<rparr>"

section \<open>Evaluation on concrete inputs\<close>

lemma body_get_simps [simp]:
  "body_get [] k = JUndefined"
  "body_get ((k', v) # b) k = (if k' = k then v else body_get b k)"
  by (simp_all add: body_get_def)

lemma trim_spaces: "trim ''   '' = []"
  by code_simp

lemma trim_Buy_milk: "trim ''  Buy milk '' = ''Buy milk''"
  by code_simp

lemma lower_HIGH: "toLowerCase ''HIGH'' = ''high''"
  by code_simp

lemma lower_urgent: "toLowerCase ''urgent'' = ''urgent''"
  by code_simp

lemma clock_int: "int_to_string 1700000000000 = ''1700000000000''"
  by (simp add: int_to_string_def digits10.simps [of "numeral n" for n]
      digits10.simps [of "Suc 0"] digit_char_def)

lemma object_id_0: "object_id 0 = ''000000000000000000000000''"
  by (simp add: object_id_def digits10.simps [of 0] digit_char_def eval_nat_numeral)


lemma is_object_id_0: "is_object_id ''000000000000000000000000''"
  by (simp add: is_object_id_def is_hex_def)


lemma stub_simps [simp]:
  "TodoModel_create stub task pr (n, docs) =
     (Inr \<lparr>todo_id = object_id n, todo_task = task, todo_completed = Some False, todo_priority = pr\<rparr>,
      (Suc n, docs @ [\<lparr>todo_id = object_id n, todo_task = task, todo_completed = Some False,
                       todo_priority = pr\<rparr>]))"
  "TodoModel_findById stub created (n, docs) = Inr (find (\<lambda>t. todo_id t = todo_id created) docs)"
  "TodoModel_findByIdAndDelete stub i (n, docs) =
     (if is_object_id i
      then (Inr (find (\<lambda>t. todo_id t = i) docs), (n, filter (\<lambda>t. todo_id t \<noteq> i) docs))
      else (Inl CastError, (n, docs)))"
  "TodoModel_findByIdAndUpdate stub i u (n, docs) =
     (if is_object_id i
      then (Inr (map_option (\<lambda>t. assign t u) (find (\<lambda>t. todo_id t = i) docs)),
            (n, map (\<lambda>t. if todo_id t = i then assign t u else t) docs))
      else (Inl CastError, (n, docs)))"
  by (simp_all add: stub_def Let_def)

lemma fixtures [simp]:
  "useDb fresh = False" "inMemoryTodos fresh = []" "db fresh = (0, [])"
  "useDb fresh_db = True" "inMemoryTodos fresh_db = []" "db fresh_db = (0, [])"
  "useDb one_todo = False" "inMemoryTodos one_todo = [milk]" "db one_todo = (0, [])"
  "todo_id milk = ''1700000000000''"
  "useDb one_doc = True" "inMemoryTodos one_doc = []" "db one_doc = (1, [milk_doc])"
  "todo_id milk_doc = ''000000000000000000000000''"
  by (simp_all add: fresh_def fresh_db_def start_def one_todo_def milk_def one_doc_def milk_doc_def)


lemma trim_milk: "trim ''Buy milk'' = ''Buy milk''"
  by code_simp

lemma urgent_completed: "build_update [(''priority'', JStr ''urgent''), (''completed'', JStr ''false'')]
   = Inr \<lparr>update_task = None, update_completed = Some True, update_priority = None\<rparr>"
  by (simp add: build_update_def lower_urgent priorities_def)

lemma two_todos_simps [simp]:
  "useDb two_todos = False" "inMemoryTodos two_todos = [milk, mum]" "db two_todos = (0, [])"
  "todo_id mum = ''1700000000001''"
  by (simp_all add: two_todos_def mum_def)

lemma trim_mum: "trim ''Call mum'' = ''Call mum''"
  by code_simp

lemma lower_high: "toLowerCase ''high'' = ''high''"
  by code_simp

lemma completed_false_string: "build_update [(''completed'', JStr ''false'')]
   = Inr \<lparr>update_task = None, update_completed = Some True, update_priority = None\<rparr>"
  by (simp add: build_update_def)

lemma completed_zero: "build_update [(''completed'', JNum Zero)]
   = Inr \<lparr>update_task = None, update_completed = Some False, update_priority = None\<rparr>"
  by (simp add: build_update_def)

lemma clock_int': "int_to_string 1700000000001 = ''1700000000001''"
  by (simp add: int_to_string_def digits10.simps [of "numeral n" for n]
      digits10.simps [of "Suc 0"] digit_char_def)

lemma two_todos_reached:
  "run stub [Add 1700000000000 [(''task'', JStr ''Buy milk'')],
             Add 1700000000001 [(''task'', JStr ''Call mum''), (''priority'', JStr ''high'')]] fresh
     = two_todos"
  by (simp add: post_add_def incoming_priority_def pr_of_def clock_int clock_int' trim_milk
      trim_mum lower_high priorities_def Let_def fresh_def start_def two_todos_def milk_def mum_def)

section \<open>The handlers on the in-memory list\<close>

lemma assign_id [simp]: "todo_id (assign t u) = todo_id t"
  by (simp add: assign_def)

lemma find_mapped:
  "find (\<lambda>t. todo_id t = i) (map (\<lambda>t. if todo_id t = i then assign t u else t) xs)
     = map_option (\<lambda>t. assign t u) (find (\<lambda>t. todo_id t = i) xs)"
  by (induction xs) auto

lemma list_ex_find: "list_ex P xs = (find P xs \<noteq> None)"
  by (induction xs) auto

lemma map_untouched:
  "i \<notin> todo_id ` set xs \<Longrightarrow> map (\<lambda>t. if todo_id t = i then assign t u else t) xs = xs"
  by (induction xs) auto


lemma patch_update_memory:
  assumes "\<not> useDb s" and "build_update b = Inr u" and "keys_length u \<noteq> 0"
    and "find (\<lambda>t. todo_id t = i) (inMemoryTodos s) = Some t0"
  shows "patch_update drv i b s =
           ((200, Todo (assign t0 u)),
            s\<lparr>inMemoryTodos := map (\<lambda>t. if todo_id t = i then assign t u else t) (inMemoryTodos s)\<rparr>)"
  using assms by (simp add: patch_update_def Let_def find_mapped list_ex_find)

lemma patch_update_missing:
  assumes "\<not> useDb s" and "build_update b = Inr u" and "keys_length u \<noteq> 0"
    and "i \<notin> todo_id ` set (inMemoryTodos s)"
  shows "patch_update drv i b s = ((404, Error ''Not found''), s)"
proof -
  have "find (\<lambda>t. todo_id t = i) (inMemoryTodos s) = None"
    using assms(4) by (auto simp: find_None_iff)
  then show ?thesis
    using assms by (simp add: patch_update_def Let_def list_ex_find map_untouched)
qed


lemma post_add_memory:
  assumes "ToBoolean (body_get b ''task'')" and "ToString (body_get b ''task'') = Inr str"
    and "trim str \<noteq> []" and "incoming_priority (body_get b ''priority'') = Inr incoming"
    and "\<not> useDb s"
  shows "post_add drv now b s =
           ((200, Todo \<lparr>todo_id = int_to_string now, todo_task = trim str,
                        todo_completed = None, todo_priority = pr_of incoming\<rparr>),
            s\<lparr>inMemoryTodos := inMemoryTodos s @
               [\<lparr>todo_id = int_to_string now, todo_task = trim str,
                 todo_completed = None, todo_priority = pr_of incoming\<rparr>]\<rparr>)"
  using assms by (simp add: post_add_def Let_def)



lemma build_update_fields:
  assumes "build_update b = Inr u"
  shows "update_completed u =
           (if body_get b ''completed'' = JUndefined then None
            else Some (ToBoolean (body_get b ''completed'')))"
    and "(update_task u = None) = (body_get b ''task'' = JUndefined)"
    and "body_get b ''priority'' = JUndefined \<Longrightarrow> update_priority u = None"
    and "ToString (body_get b ''priority'') = Inr p \<Longrightarrow> toLowerCase p \<notin> set priorities
           \<Longrightarrow> update_priority u = None"
    and "ToString (body_get b ''task'') = Inr str \<Longrightarrow> body_get b ''task'' \<noteq> JUndefined
           \<Longrightarrow> update_task u = Some (trim str)"
  using assms by (auto simp: build_update_def Let_def split: sum.splits if_splits)

lemma incoming_pr:
  assumes "(v = JUndefined \<and> pr = ''medium'') \<or>
           (v \<noteq> JUndefined \<and> (\<exists>p. ToString v = Inr p \<and>
              pr = (if toLowerCase p \<in> set priorities then toLowerCase p else ''medium'')))"
  shows "\<exists>incoming. incoming_priority v = Inr incoming \<and> pr_of incoming = pr"
  using assms by (auto simp: incoming_priority_def pr_of_def priorities_def)

lemma patch_update_ok:
  assumes "\<not> useDb s" and "patch_update drv i b s = ((200, r), s')"
    and "build_update b = Inr u"
  shows "s' = s\<lparr>inMemoryTodos := map (\<lambda>t. if todo_id t = i then assign t u else t) (inMemoryTodos s)\<rparr>"
proof (cases "keys_length u = 0")
  case True
  then show ?thesis
    using assms by (simp add: patch_update_def)
next
  case False
  show ?thesis
  proof (cases "find (\<lambda>t. todo_id t = i) (inMemoryTodos s)")
    case None
    then have "i \<notin> todo_id ` set (inMemoryTodos s)"
      by (auto simp: find_None_iff)
    then show ?thesis
      using assms False patch_update_missing [of s b u i drv] by simp
  next
    case (Some t0)
    then show ?thesis
      using assms False patch_update_memory [of s b u i t0 drv] by simp
  qed
qed

lemma falsy_values:
  "(\<not> ToBoolean v) = (v \<in> {JUndefined, JNull, JBool False, JNum Zero, JNum NaN, JStr []})"
  by (cases v rule: ToBoolean.cases) simp_all

lemma build_update_throws:
  assumes "build_update b = Inl e"
  shows "patch_update drv i b s = (internal_error, s)"
  using assms by (simp add: patch_update_def)

lemma priority_throws:
  assumes "body_get b ''priority'' \<noteq> JUndefined" and "ToString (body_get b ''priority'') = Inl e"
  shows "\<exists>e'. build_update b = Inl e'"
  using assms by (auto simp: build_update_def Let_def split: sum.splits)

lemma task_throws:
  assumes "body_get b ''task'' \<noteq> JUndefined" and "ToString (body_get b ''task'') = Inl e"
  shows "\<exists>e'. build_update b = Inl e'"
  using assms by (auto simp: build_update_def Let_def split: sum.splits)


lemma trim_x: "trim ''x'' = ''x''"
  by code_simp

lemma trim_1e21: "trim ''1e+21'' = ''1e+21''"
  by code_simp

lemma build_update_dropped:
  assumes "body_get b ''priority'' \<noteq> JUndefined" and "ToString (body_get b ''priority'') = Inr p"
    and "toLowerCase p \<notin> set priorities"
    and "body_get b ''task'' = JUndefined \<or> ToString (body_get b ''task'') = Inr str"
  shows "build_update b =
           Inr \<lparr>update_task = (if body_get b ''task'' = JUndefined then None else Some (trim str)),
                update_completed = (if body_get b ''completed'' = JUndefined then None
                                    else Some (ToBoolean (body_get b ''completed''))),
                update_priority = None\<rparr>"
  using assms by (auto simp: build_update_def Let_def)

lemma build_update_converts:
  assumes "body_get b ''task'' = JUndefined \<or> ToString (body_get b ''task'') = Inr ts"
    and "body_get b ''priority'' = JUndefined \<or> ToString (body_get b ''priority'') = Inr ps"
  shows "\<exists>u. build_update b = Inr u"
  using assms by (auto simp: build_update_def Let_def)

section \<open>Rejected requests\<close>

text \<open>
  C7. A create request whose task is absent, or blank after \<^verbatim>\<open>String(task).trim()\<close>,
  is answered 400 \<^verbatim>\<open>task is required\<close>, and the state (the in-memory list, the
  database, the backend flag) is the one before the request. This is decided before the
  handler branches on the backend, so it holds for both.
\<close>

theorem create_blank_task_rejected:
  assumes "body_get b ''task'' = JUndefined \<or>
           (\<exists>str. ToString (body_get b ''task'') = Inr str \<and> trim str = [])"
  shows "post_add drv now b s = ((400, Error ''task is required''), s)"
  using assms by (auto simp: post_add_def Let_def)

theorem create_blank_task_rejected_witness:
  "trim ''   '' = [] \<and>
   post_add stub 1700000000000 [(''task'', JStr ''   '')] fresh
     = ((400, Error ''task is required''), fresh) \<and>
   post_add stub 1700000000000 [(''priority'', JStr ''high'')] fresh_db
     = ((400, Error ''task is required''), fresh_db)"
  using create_blank_task_rejected [of "[(''task'', JStr ''   '')]" stub 1700000000000 fresh]
    create_blank_task_rejected [of "[(''priority'', JStr ''high'')]" stub 1700000000000 fresh_db]
  by (simp add: trim_spaces)

text \<open>
  C8, as amended. With task and completed absent, an update request whose priority is
  absent, or converts under \<^verbatim>\<open>String\<close> to a string that is not one of the three values
  once lowercased, is answered 400 \<^verbatim>\<open>nothing to update\<close>; one on whose priority
  \<^verbatim>\<open>String\<close> throws is answered 500. Either way the state is left as it was, in both
  backends.
\<close>

theorem empty_update_rejected:
  assumes "body_get b ''task'' = JUndefined" and "body_get b ''completed'' = JUndefined"
  shows "(body_get b ''priority'' = JUndefined \<or>
          (\<exists>p. ToString (body_get b ''priority'') = Inr p \<and> toLowerCase p \<notin> set priorities) \<longrightarrow>
            patch_update drv i b s = ((400, Error ''nothing to update''), s)) \<and>
         (body_get b ''priority'' \<noteq> JUndefined \<and>
          (\<exists>e. ToString (body_get b ''priority'') = Inl e) \<longrightarrow>
            patch_update drv i b s = ((500, Error ''Internal Server Error''), s))"
proof (intro conjI impI)
  assume "body_get b ''priority'' = JUndefined \<or>
          (\<exists>p. ToString (body_get b ''priority'') = Inr p \<and> toLowerCase p \<notin> set priorities)"
  then show "patch_update drv i b s = ((400, Error ''nothing to update''), s)"
    using assms by (auto simp: patch_update_def build_update_def Let_def keys_length_def)
next
  assume "body_get b ''priority'' \<noteq> JUndefined \<and> (\<exists>e. ToString (body_get b ''priority'') = Inl e)"
  then obtain e' where "build_update b = Inl e'"
    using priority_throws by blast
  then show "patch_update drv i b s = ((500, Error ''Internal Server Error''), s)"
    by (rule build_update_throws)
qed

theorem empty_update_rejected_witness:
  "toLowerCase ''urgent'' \<notin> set priorities \<and>
   patch_update stub ''1700000000000'' [(''priority'', JStr ''urgent'')] one_todo
     = ((400, Error ''nothing to update''), one_todo) \<and>
   patch_update stub ''1700000000000'' [] one_todo = ((400, Error ''nothing to update''), one_todo) \<and>
   patch_update stub ''000000000000000000000000'' [(''title'', JStr ''x'')] one_doc
     = ((400, Error ''nothing to update''), one_doc) \<and>
   patch_update stub ''1700000000000'' [(''priority'', JObj [(''toString'', JNum (Nonzero ''1''))])]
       one_todo
     = ((500, Error ''Internal Server Error''), one_todo)"
  using empty_update_rejected [of "[(''priority'', JStr ''urgent'')]" stub "''1700000000000''" one_todo]
    empty_update_rejected [of "[]" stub "''1700000000000''" one_todo]
    empty_update_rejected [of "[(''title'', JStr ''x'')]" stub "''000000000000000000000000''" one_doc]
    empty_update_rejected [of "[(''priority'', JObj [(''toString'', JNum (Nonzero ''1''))])]" stub
      "''1700000000000''" one_todo]
  by (simp add: lower_urgent priorities_def)

text \<open>
  C8 as the specification states it fails on a priority that is an object with its own
  \<^verbatim>\<open>toString\<close> key: no field of the body is applicable, and the answer is 500, not 400.
\<close>

theorem unconvertible_priority_update_counterexample:
  "patch_update stub ''1700000000000'' [(''priority'', JObj [(''toString'', JNum (Nonzero ''1''))])]
       one_todo
     = ((500, Error ''Internal Server Error''), one_todo)"
  by (simp add: patch_update_def build_update_def)

section \<open>Lookups of ids that are not stored\<close>




section \<open>Priority on create and on update\<close>

text \<open>
  C6, as amended. On create with an accepted task, the priority is \<^verbatim>\<open>medium\<close> when the
  field is absent or \<^verbatim>\<open>String(priority).toLowerCase()\<close> is none of low, medium, high,
  and that lowercased string when it is one of them; such a request is not turned down for
  its priority: the in-memory backend answers 200 with the new record carrying that
  priority, and the persistent backend hands that priority to \<^verbatim>\<open>TodoModel.create\<close> and
  answers 200 with the document read back (or the created one). A priority on which
  \<^verbatim>\<open>String\<close> throws is answered 500 and nothing is created. \<open>pr\<close> is the normalized
  priority.
\<close>

theorem create_priority_normalized:
  assumes "ToBoolean (body_get b ''task'')" and "ToString (body_get b ''task'') = Inr str"
    and "trim str \<noteq> []"
  shows "((body_get b ''priority'' = JUndefined \<and> pr = ''medium'') \<or>
          (body_get b ''priority'' \<noteq> JUndefined \<and> ToString (body_get b ''priority'') = Inr p \<and>
             pr = (if toLowerCase p \<in> set priorities then toLowerCase p else ''medium'')) \<longrightarrow>
            pr \<in> set priorities \<and>
            (\<not> useDb s \<longrightarrow>
               post_add drv now b s =
                 ((200, Todo \<lparr>todo_id = int_to_string now, todo_task = trim str,
                              todo_completed = None, todo_priority = pr\<rparr>),
                  s\<lparr>inMemoryTodos := inMemoryTodos s @
                     [\<lparr>todo_id = int_to_string now, todo_task = trim str,
                       todo_completed = None, todo_priority = pr\<rparr>]\<rparr>)) \<and>
            (useDb s \<and> TodoModel_create drv (trim str) pr (db s) = (Inr created, d)
               \<and> TodoModel_findById drv created d = Inr r \<longrightarrow>
               post_add drv now b s =
                 ((200, Doc (case r of None \<Rightarrow> created | Some fetched \<Rightarrow> fetched)),
                  s\<lparr>db := d\<rparr>))) \<and>
         (body_get b ''priority'' \<noteq> JUndefined \<and> ToString (body_get b ''priority'') = Inl e \<longrightarrow>
            post_add drv now b s = ((500, Error ''Internal Server Error''), s))"
proof (intro conjI impI)
  assume a: "(body_get b ''priority'' = JUndefined \<and> pr = ''medium'') \<or>
          (body_get b ''priority'' \<noteq> JUndefined \<and> ToString (body_get b ''priority'') = Inr p \<and>
             pr = (if toLowerCase p \<in> set priorities then toLowerCase p else ''medium''))"
  then obtain incoming where inc: "incoming_priority (body_get b ''priority'') = Inr incoming"
    and pr: "pr_of incoming = pr"
    using incoming_pr [of "body_get b ''priority''" pr] by blast
  show "pr \<in> set priorities"
    using a by (auto simp: priorities_def)
  show "post_add drv now b s =
          ((200, Todo \<lparr>todo_id = int_to_string now, todo_task = trim str,
                       todo_completed = None, todo_priority = pr\<rparr>),
           s\<lparr>inMemoryTodos := inMemoryTodos s @
              [\<lparr>todo_id = int_to_string now, todo_task = trim str,
                todo_completed = None, todo_priority = pr\<rparr>]\<rparr>)"
    if "\<not> useDb s"
    using post_add_memory [OF assms inc that, of drv now] pr by simp
  show "post_add drv now b s =
          ((200, Doc (case r of None \<Rightarrow> created | Some fetched \<Rightarrow> fetched)), s\<lparr>db := d\<rparr>)"
    if "useDb s \<and> TodoModel_create drv (trim str) pr (db s) = (Inr created, d)
          \<and> TodoModel_findById drv created d = Inr r"
    using that assms inc pr by (auto simp: post_add_def Let_def split: option.splits)
next
  assume "body_get b ''priority'' \<noteq> JUndefined \<and> ToString (body_get b ''priority'') = Inl e"
  then show "post_add drv now b s = ((500, Error ''Internal Server Error''), s)"
    using assms by (simp add: post_add_def Let_def incoming_priority_def)
qed

theorem create_priority_normalized_witness:
  "toLowerCase ''HIGH'' = ''high'' \<and> toLowerCase ''urgent'' \<notin> set priorities \<and>
   post_add stub 1700000000000 [(''task'', JStr ''  Buy milk ''), (''priority'', JStr ''HIGH'')] fresh
     = ((200, Todo \<lparr>todo_id = ''1700000000000'', todo_task = ''Buy milk'', todo_completed = None,
                   todo_priority = ''high''\<rparr>),
        fresh\<lparr>inMemoryTodos := [\<lparr>todo_id = ''1700000000000'', todo_task = ''Buy milk'',
                                   todo_completed = None, todo_priority = ''high''\<rparr>]\<rparr>) \<and>
   post_add stub 1700000000000 [(''task'', JStr ''  Buy milk ''), (''priority'', JStr ''urgent'')] fresh
     = ((200, Todo milk), one_todo) \<and>
   post_add stub 1700000000000 [(''task'', JStr ''  Buy milk '')] fresh
     = ((200, Todo milk), one_todo) \<and>
   post_add stub 1700000000000 [(''task'', JNum (Nonzero ''1e+21'')), (''priority'', JNull)] fresh
     = ((200, Todo \<lparr>todo_id = ''1700000000000'', todo_task = ''1e+21'', todo_completed = None,
                   todo_priority = ''medium''\<rparr>),
        fresh\<lparr>inMemoryTodos := [\<lparr>todo_id = ''1700000000000'', todo_task = ''1e+21'',
                                   todo_completed = None, todo_priority = ''medium''\<rparr>]\<rparr>) \<and>
   post_add stub 1700000000000 [(''task'', JStr ''  Buy milk ''), (''priority'', JStr ''HIGH'')] fresh_db
     = ((200, Doc \<lparr>todo_id = ''000000000000000000000000'', todo_task = ''Buy milk'',
                  todo_completed = Some False, todo_priority = ''high''\<rparr>),
        fresh_db\<lparr>db := (1, [\<lparr>todo_id = ''000000000000000000000000'', todo_task = ''Buy milk'',
                                todo_completed = Some False, todo_priority = ''high''\<rparr>])\<rparr>) \<and>
   post_add stub 1700000000000 [(''task'', JStr ''x''), (''priority'', JObj [(''toString'', JStr ''high'')])]
       fresh
     = ((500, Error ''Internal Server Error''), fresh)"
proof -
  let ?doc = "\<lparr>todo_id = ''000000000000000000000000'', todo_task = ''Buy milk'',
               todo_completed = Some False, todo_priority = ''high''\<rparr>"
  have one: "fresh\<lparr>inMemoryTodos := [milk]\<rparr> = one_todo"
    by (simp add: fresh_def start_def one_todo_def)
  have m: "\<lparr>todo_id = ''1700000000000'', todo_task = ''Buy milk'', todo_completed = None,
            todo_priority = ''medium''\<rparr> = milk"
    by (simp add: milk_def)
  have lower_null: "toLowerCase ''null'' = ''null''"
    by code_simp
  show ?thesis
    using create_priority_normalized
        [of "[(''task'', JStr ''  Buy milk ''), (''priority'', JStr ''HIGH'')]" "''  Buy milk ''"
          "''high''" "''HIGH''" fresh stub 1700000000000 ?doc "(Suc 0, [?doc])" "Some ?doc" TypeError]
      create_priority_normalized
        [of "[(''task'', JStr ''  Buy milk ''), (''priority'', JStr ''urgent'')]" "''  Buy milk ''"
          "''medium''" "''urgent''" fresh stub 1700000000000 ?doc "(Suc 0, [?doc])" "Some ?doc" TypeError]
      create_priority_normalized
        [of "[(''task'', JStr ''  Buy milk '')]" "''  Buy milk ''"
          "''medium''" "''x''" fresh stub 1700000000000 ?doc "(Suc 0, [?doc])" "Some ?doc" TypeError]
      create_priority_normalized
        [of "[(''task'', JNum (Nonzero ''1e+21'')), (''priority'', JNull)]" "''1e+21''"
          "''medium''" "''null''" fresh stub 1700000000000 ?doc "(Suc 0, [?doc])" "Some ?doc" TypeError]
      create_priority_normalized
        [of "[(''task'', JStr ''  Buy milk ''), (''priority'', JStr ''HIGH'')]" "''  Buy milk ''"
          "''high''" "''HIGH''" fresh_db stub 1700000000000 ?doc "(Suc 0, [?doc])" "Some ?doc" TypeError]
      create_priority_normalized
        [of "[(''task'', JStr ''x''), (''priority'', JObj [(''toString'', JStr ''high'')])]" "''x''"
          "''medium''" "''x''" fresh stub 1700000000000 ?doc "(Suc 0, [?doc])" "Some ?doc" TypeError]
    by (simp add: trim_Buy_milk trim_x trim_1e21 lower_HIGH lower_urgent lower_null priorities_def
        clock_int one m object_id_0)
qed

text \<open>
  C6 as the specification states it fails on a priority that is an object with its own
  \<^verbatim>\<open>toString\<close> key: the task is accepted, and the request is answered 500 with nothing
  stored.
\<close>

theorem unconvertible_priority_create_counterexample:
  "post_add stub 1700000000000 [(''task'', JStr ''x''), (''priority'', JObj [(''toString'', JStr ''high'')])]
       fresh
     = ((500, Error ''Internal Server Error''), fresh)"
  by (simp add: post_add_def incoming_priority_def trim_x)

text \<open>
  C1, as amended. A priority present in the body of an update that \<^verbatim>\<open>String\<close>
  converts to a string that is none of the three values once lowercased is dropped from the
  update object. Alone in the body it leaves the update object empty, and the request is
  answered 400 \<^verbatim>\<open>nothing to update\<close> with the state unchanged. With a completed field
  or a task that \<^verbatim>\<open>String\<close> converts, the update object is built without a priority
  and the request succeeds on a stored id: the in-memory backend answers 200 with the
  record, which keeps its priority as every stored todo does, and the persistent backend
  hands that update object to \<^verbatim>\<open>findByIdAndUpdate\<close> and answers 200 with the document
  it returns. When \<^verbatim>\<open>String\<close> throws on the priority or on the task, the answer is 500
  and the state is unchanged.
\<close>

theorem invalid_priority_dropped:
  assumes "body_get b ''priority'' \<noteq> JUndefined"
  shows "(ToString (body_get b ''priority'') = Inl e \<longrightarrow>
            patch_update drv i b s = ((500, Error ''Internal Server Error''), s)) \<and>
         (ToString (body_get b ''priority'') = Inr p \<and> toLowerCase p \<notin> set priorities \<longrightarrow>
            (body_get b ''task'' = JUndefined \<and> body_get b ''completed'' = JUndefined \<longrightarrow>
               patch_update drv i b s = ((400, Error ''nothing to update''), s)) \<and>
            (body_get b ''task'' \<noteq> JUndefined \<and> ToString (body_get b ''task'') = Inl e \<longrightarrow>
               patch_update drv i b s = ((500, Error ''Internal Server Error''), s)) \<and>
            (body_get b ''task'' = JUndefined \<or> ToString (body_get b ''task'') = Inr str \<longrightarrow>
               build_update b =
                 Inr \<lparr>update_task =
                        (if body_get b ''task'' = JUndefined then None else Some (trim str)),
                      update_completed =
                        (if body_get b ''completed'' = JUndefined then None
                         else Some (ToBoolean (body_get b ''completed''))),
                      update_priority = None\<rparr>) \<and>
            (build_update b = Inr u \<and>
             (body_get b ''task'' \<noteq> JUndefined \<or> body_get b ''completed'' \<noteq> JUndefined) \<longrightarrow>
               update_priority u = None \<and>
               (\<not> useDb s \<and> find (\<lambda>t. todo_id t = i) (inMemoryTodos s) = Some t0 \<longrightarrow>
                  patch_update drv i b s =
                    ((200, Todo (assign t0 u)),
                     s\<lparr>inMemoryTodos :=
                         map (\<lambda>t. if todo_id t = i then assign t u else t) (inMemoryTodos s)\<rparr>) \<and>
                  todo_priority (assign t0 u) = todo_priority t0 \<and>
                  map todo_priority
                      (map (\<lambda>t. if todo_id t = i then assign t u else t) (inMemoryTodos s))
                    = map todo_priority (inMemoryTodos s)) \<and>
               (useDb s \<and> TodoModel_findByIdAndUpdate drv i u (db s) = (Inr (Some doc), d) \<longrightarrow>
                  patch_update drv i b s = ((200, Doc doc), s\<lparr>db := d\<rparr>))))"
proof (intro conjI impI)
  assume "ToString (body_get b ''priority'') = Inl e"
  then obtain e' where "build_update b = Inl e'"
    using assms priority_throws by blast
  then show "patch_update drv i b s = ((500, Error ''Internal Server Error''), s)"
    by (rule build_update_throws)
next
  assume inv: "ToString (body_get b ''priority'') = Inr p \<and> toLowerCase p \<notin> set priorities"
    and "body_get b ''task'' = JUndefined \<and> body_get b ''completed'' = JUndefined"
  then show "patch_update drv i b s = ((400, Error ''nothing to update''), s)"
    using assms by (auto simp: patch_update_def build_update_def Let_def keys_length_def)
next
  assume "body_get b ''task'' \<noteq> JUndefined \<and> ToString (body_get b ''task'') = Inl e"
  then obtain e' where "build_update b = Inl e'"
    using task_throws by blast
  then show "patch_update drv i b s = ((500, Error ''Internal Server Error''), s)"
    by (rule build_update_throws)
next
  assume inv: "ToString (body_get b ''priority'') = Inr p \<and> toLowerCase p \<notin> set priorities"
    and "body_get b ''task'' = JUndefined \<or> ToString (body_get b ''task'') = Inr str"
  then show "build_update b =
                 Inr \<lparr>update_task =
                        (if body_get b ''task'' = JUndefined then None else Some (trim str)),
                      update_completed =
                        (if body_get b ''completed'' = JUndefined then None
                         else Some (ToBoolean (body_get b ''completed''))),
                      update_priority = None\<rparr>"
    using assms build_update_dropped by blast
next
  assume inv: "ToString (body_get b ''priority'') = Inr p \<and> toLowerCase p \<notin> set priorities"
    and u: "build_update b = Inr u \<and>
             (body_get b ''task'' \<noteq> JUndefined \<or> body_get b ''completed'' \<noteq> JUndefined)"
  show none: "update_priority u = None"
    using inv u build_update_fields(4) by blast
  have keys: "keys_length u \<noteq> 0"
    using u build_update_fields(1,2) [of b u] by (auto simp: keys_length_def)
  show "todo_priority (assign t0 u) = todo_priority t0"
    using none by (simp add: assign_def)
  show "map todo_priority
            (map (\<lambda>t. if todo_id t = i then assign t u else t) (inMemoryTodos s))
          = map todo_priority (inMemoryTodos s)"
    using none by (simp add: assign_def)
  show "patch_update drv i b s =
          ((200, Todo (assign t0 u)),
           s\<lparr>inMemoryTodos :=
               map (\<lambda>t. if todo_id t = i then assign t u else t) (inMemoryTodos s)\<rparr>)"
    if "\<not> useDb s \<and> find (\<lambda>t. todo_id t = i) (inMemoryTodos s) = Some t0"
    using that u keys by (simp add: patch_update_memory)
  show "patch_update drv i b s = ((200, Doc doc), s\<lparr>db := d\<rparr>)"
    if "useDb s \<and> TodoModel_findByIdAndUpdate drv i u (db s) = (Inr (Some doc), d)"
    using that u keys by (simp add: patch_update_def)
qed

theorem invalid_priority_dropped_witness:
  "toLowerCase ''urgent'' \<notin> set priorities \<and>
   patch_update stub ''1700000000000'' [(''priority'', JStr ''urgent'')] one_todo
     = ((400, Error ''nothing to update''), one_todo) \<and>
   patch_update stub ''1700000000000''
       [(''priority'', JStr ''urgent''), (''completed'', JStr ''false'')] one_todo
     = ((200, Todo \<lparr>todo_id = ''1700000000000'', todo_task = ''Buy milk'',
                   todo_completed = Some True, todo_priority = ''medium''\<rparr>),
        one_todo\<lparr>inMemoryTodos :=
          [\<lparr>todo_id = ''1700000000000'', todo_task = ''Buy milk'',
            todo_completed = Some True, todo_priority = ''medium''\<rparr>]\<rparr>) \<and>
   patch_update stub ''000000000000000000000000''
       [(''priority'', JStr ''urgent''), (''completed'', JStr ''false'')] one_doc
     = ((200, Doc \<lparr>todo_id = ''000000000000000000000000'', todo_task = ''Buy milk'',
                  todo_completed = Some True, todo_priority = ''medium''\<rparr>),
        one_doc\<lparr>db :=
          (1, [\<lparr>todo_id = ''000000000000000000000000'', todo_task = ''Buy milk'',
                todo_completed = Some True, todo_priority = ''medium''\<rparr>])\<rparr>) \<and>
   patch_update stub ''1700000000000''
       [(''priority'', JStr ''urgent''), (''task'', JObj [(''toString'', JNum (Nonzero ''1''))])] one_todo
     = ((500, Error ''Internal Server Error''), one_todo) \<and>
   patch_update stub ''1700000000000'' [(''priority'', JArr [JObj [(''toString'', JNull)]])] one_todo
     = ((500, Error ''Internal Server Error''), one_todo)"
proof -
  let ?u = "\<lparr>update_task = None, update_completed = Some True, update_priority = None\<rparr>"
  let ?doc = "\<lparr>todo_id = ''000000000000000000000000'', todo_task = ''Buy milk'',
               todo_completed = Some True, todo_priority = ''medium''\<rparr>"
  show ?thesis
    using invalid_priority_dropped
        [of "[(''priority'', JStr ''urgent'')]" TypeError stub "''1700000000000''" one_todo
          "''urgent''" "''x''" ?u milk ?doc "(1, [?doc])"]
      invalid_priority_dropped
        [of "[(''priority'', JStr ''urgent''), (''completed'', JStr ''false'')]" TypeError stub
          "''1700000000000''" one_todo "''urgent''" "''x''" ?u milk ?doc "(1, [?doc])"]
      invalid_priority_dropped
        [of "[(''priority'', JStr ''urgent''), (''completed'', JStr ''false'')]" TypeError stub
          "''000000000000000000000000''" one_doc "''urgent''" "''x''" ?u milk ?doc "(1, [?doc])"]
      invalid_priority_dropped
        [of "[(''priority'', JStr ''urgent''), (''task'', JObj [(''toString'', JNum (Nonzero ''1''))])]"
          TypeError stub "''1700000000000''" one_todo "''urgent''" "''x''" ?u milk ?doc "(1, [?doc])"]
      invalid_priority_dropped
        [of "[(''priority'', JArr [JObj [(''toString'', JNull)]])]" TypeError stub
          "''1700000000000''" one_todo "''urgent''" "''x''" ?u milk ?doc "(1, [?doc])"]
    by (simp add: lower_urgent priorities_def urgent_completed assign_def milk_def milk_doc_def
        is_object_id_0)
qed

text \<open>
  C1 as the specification states it, that a body holding only an invalid priority is
  answered with the 200 record, fails on the todo created at clock 1700000000000: the
  answer is 400.
\<close>

theorem only_invalid_priority_counterexample:
  "snd (post_add stub 1700000000000 [(''task'', JStr ''Buy milk'')] fresh) = one_todo \<and>
   patch_update stub ''1700000000000'' [(''priority'', JStr ''urgent'')] one_todo
     = ((400, Error ''nothing to update''), one_todo)"
  by (simp add: post_add_def patch_update_def build_update_def keys_length_def lower_urgent
      priorities_def incoming_priority_def pr_of_def clock_int one_todo_def milk_def
      fresh_def start_def trim_milk Let_def)

section \<open>What an update changes\<close>

text \<open>
  A successful update in the in-memory backend replaces the list by one of the same
  length in which, position by position, the id is the old one, a todo with another id
  is the old todo, and a field for which the update object has no key is the old field.
  The backend flag and the database are untouched. When the stored ids are distinct, at
  most one position of the list changes. \<open>u\<close> is the update object built from the
  body.
\<close>

lemma update_modifies_only_target:
  assumes "\<not> useDb s" and "patch_update drv i b s = ((200, r), s')"
    and "build_update b = Inr u"
  shows "length (inMemoryTodos s') = length (inMemoryTodos s) \<and> useDb s' = useDb s \<and> db s' = db s \<and>
         (\<forall>k < length (inMemoryTodos s).
            todo_id (inMemoryTodos s' ! k) = todo_id (inMemoryTodos s ! k) \<and>
            (todo_id (inMemoryTodos s ! k) \<noteq> i \<longrightarrow> inMemoryTodos s' ! k = inMemoryTodos s ! k) \<and>
            (update_task u = None \<longrightarrow>
               todo_task (inMemoryTodos s' ! k) = todo_task (inMemoryTodos s ! k)) \<and>
            (update_completed u = None \<longrightarrow>
               todo_completed (inMemoryTodos s' ! k) = todo_completed (inMemoryTodos s ! k)) \<and>
            (update_priority u = None \<longrightarrow>
               todo_priority (inMemoryTodos s' ! k) = todo_priority (inMemoryTodos s ! k))) \<and>
         (distinct (map todo_id (inMemoryTodos s)) \<longrightarrow>
            (\<forall>k < length (inMemoryTodos s). \<forall>j < length (inMemoryTodos s).
               inMemoryTodos s' ! k \<noteq> inMemoryTodos s ! k \<and>
               inMemoryTodos s' ! j \<noteq> inMemoryTodos s ! j \<longrightarrow> k = j))"
proof -
  let ?xs = "inMemoryTodos s"
  have s': "inMemoryTodos s' = map (\<lambda>t. if todo_id t = i then assign t u else t) ?xs"
    and rest: "useDb s' = useDb s" "db s' = db s"
    unfolding patch_update_ok [OF assms] by simp_all
  have one: "k = j"
    if d: "distinct (map todo_id ?xs)" and k: "k < length ?xs" and j: "j < length ?xs"
      and ck: "inMemoryTodos s' ! k \<noteq> ?xs ! k" and cj: "inMemoryTodos s' ! j \<noteq> ?xs ! j" for k j
  proof -
    have "todo_id (?xs ! k) = i" and "todo_id (?xs ! j) = i"
      using k j ck cj by (auto simp: s' split: if_splits)
    then have "map todo_id ?xs ! k = map todo_id ?xs ! j"
      using k j by simp
    moreover have "k < length (map todo_id ?xs)" and "j < length (map todo_id ?xs)"
      using k j by simp_all
    ultimately show ?thesis
      using d nth_eq_iff_index_eq by blast
  qed
  show ?thesis
    using rest one by (simp add: s' assign_def)
qed

text \<open>
  C10, as amended. A present \<^verbatim>\<open>completed\<close> field is coerced by truthiness:
  \<^verbatim>\<open>!!completed\<close> is false exactly for \<^verbatim>\<open>null\<close>, \<^verbatim>\<open>false\<close>, \<^verbatim>\<open>0\<close>,
  \<^verbatim>\<open>NaN\<close> and the empty string, and true for every other value, the string
  \<^verbatim>\<open>"false"\<close> included. When \<^verbatim>\<open>String\<close> converts the task and the priority that
  the body holds, the update object is built and carries that boolean; the in-memory
  backend then stores the list in which every todo with the id has been assigned the
  update object, so that each of them carries the boolean at its old position, and returns
  the first of them; the persistent backend hands the update object to
  \<^verbatim>\<open>findByIdAndUpdate\<close> and returns the document it gives back. When \<^verbatim>\<open>String\<close>
  throws on the task or on the priority, the answer is 500 and nothing is set.
\<close>

theorem completed_coerced_by_truthiness:
  assumes "body_get b ''completed'' = v" and "v \<noteq> JUndefined"
  shows "(\<not> ToBoolean v) = (v \<in> {JNull, JBool False, JNum Zero, JNum NaN, JStr []}) \<and>
         ToBoolean (JStr ''false'') \<and>
         ((body_get b ''task'' \<noteq> JUndefined \<and> ToString (body_get b ''task'') = Inl e) \<or>
          (body_get b ''priority'' \<noteq> JUndefined \<and> ToString (body_get b ''priority'') = Inl e) \<longrightarrow>
            patch_update drv i b s = ((500, Error ''Internal Server Error''), s)) \<and>
         ((body_get b ''task'' = JUndefined \<or> ToString (body_get b ''task'') = Inr ts) \<and>
          (body_get b ''priority'' = JUndefined \<or> ToString (body_get b ''priority'') = Inr ps) \<longrightarrow>
            (\<exists>u'. build_update b = Inr u')) \<and>
         (build_update b = Inr u \<longrightarrow>
            update_completed u = Some (ToBoolean v) \<and>
            (\<not> useDb s \<longrightarrow>
               inMemoryTodos (snd (patch_update drv i b s))
                 = map (\<lambda>t. if todo_id t = i then assign t u else t) (inMemoryTodos s) \<and>
               length (inMemoryTodos (snd (patch_update drv i b s))) = length (inMemoryTodos s) \<and>
               (\<forall>k < length (inMemoryTodos s).
                  todo_id (inMemoryTodos s ! k) = i \<longrightarrow>
                    todo_id (inMemoryTodos (snd (patch_update drv i b s)) ! k) = i \<and>
                    todo_completed (inMemoryTodos (snd (patch_update drv i b s)) ! k)
                      = Some (ToBoolean v))) \<and>
            (\<not> useDb s \<and> find (\<lambda>t. todo_id t = i) (inMemoryTodos s) = Some t0 \<longrightarrow>
               fst (patch_update drv i b s) = (200, Todo (assign t0 u)) \<and>
               todo_completed (assign t0 u) = Some (ToBoolean v)) \<and>
            (useDb s \<and> TodoModel_findByIdAndUpdate drv i u (db s) = (Inr (Some doc), d) \<longrightarrow>
               patch_update drv i b s = ((200, Doc doc), s\<lparr>db := d\<rparr>)))"
proof (intro conjI impI allI)
  show "(\<not> ToBoolean v) = (v \<in> {JNull, JBool False, JNum Zero, JNum NaN, JStr []})"
    using assms(2) by (simp add: falsy_values)
  show "ToBoolean (JStr ''false'')"
    by simp
  show "patch_update drv i b s = ((500, Error ''Internal Server Error''), s)"
    if "(body_get b ''task'' \<noteq> JUndefined \<and> ToString (body_get b ''task'') = Inl e) \<or>
        (body_get b ''priority'' \<noteq> JUndefined \<and> ToString (body_get b ''priority'') = Inl e)"
  proof -
    from that obtain e' where "build_update b = Inl e'"
      using task_throws priority_throws by blast
    then show ?thesis
      by (rule build_update_throws)
  qed
  show "\<exists>u'. build_update b = Inr u'"
    if "(body_get b ''task'' = JUndefined \<or> ToString (body_get b ''task'') = Inr ts) \<and>
        (body_get b ''priority'' = JUndefined \<or> ToString (body_get b ''priority'') = Inr ps)"
    using that build_update_converts by blast
next
  assume u: "build_update b = Inr u"
  show c: "update_completed u = Some (ToBoolean v)"
    using assms u build_update_fields(1) [of b u] by simp
  have keys: "keys_length u \<noteq> 0"
    using c by (simp add: keys_length_def)
  have list: "inMemoryTodos (snd (patch_update drv i b s))
        = map (\<lambda>t. if todo_id t = i then assign t u else t) (inMemoryTodos s)"
    if "\<not> useDb s"
    using that u keys by (simp add: patch_update_def Let_def)
  show "inMemoryTodos (snd (patch_update drv i b s))
        = map (\<lambda>t. if todo_id t = i then assign t u else t) (inMemoryTodos s)"
    if "\<not> useDb s"
    using that by (rule list)
  show "length (inMemoryTodos (snd (patch_update drv i b s))) = length (inMemoryTodos s)"
    if "\<not> useDb s"
    using list [OF that] by simp
  show "todo_id (inMemoryTodos (snd (patch_update drv i b s)) ! k) = i"
    if "\<not> useDb s" and "k < length (inMemoryTodos s)" and "todo_id (inMemoryTodos s ! k) = i" for k
    using that list by simp
  show "todo_completed (inMemoryTodos (snd (patch_update drv i b s)) ! k) = Some (ToBoolean v)"
    if "\<not> useDb s" and "k < length (inMemoryTodos s)" and "todo_id (inMemoryTodos s ! k) = i" for k
    using that list c by (simp add: assign_def)
  show "fst (patch_update drv i b s) = (200, Todo (assign t0 u))"
    if "\<not> useDb s \<and> find (\<lambda>t. todo_id t = i) (inMemoryTodos s) = Some t0"
    using that u keys by (simp add: patch_update_memory)
  show "todo_completed (assign t0 u) = Some (ToBoolean v)"
    using c by (simp add: assign_def)
  show "patch_update drv i b s = ((200, Doc doc), s\<lparr>db := d\<rparr>)"
    if "useDb s \<and> TodoModel_findByIdAndUpdate drv i u (db s) = (Inr (Some doc), d)"
    using that u keys by (simp add: patch_update_def)
qed

theorem completed_coerced_by_truthiness_witness:
  "patch_update stub ''1700000000000'' [(''completed'', JStr ''false'')] two_todos
     = ((200, Todo (milk\<lparr>todo_completed := Some True\<rparr>)),
        two_todos\<lparr>inMemoryTodos := [milk\<lparr>todo_completed := Some True\<rparr>, mum]\<rparr>) \<and>
   patch_update stub ''1700000000000'' [(''completed'', JNum Zero)] one_todo
     = ((200, Todo (milk\<lparr>todo_completed := Some False\<rparr>)),
        one_todo\<lparr>inMemoryTodos := [milk\<lparr>todo_completed := Some False\<rparr>]\<rparr>) \<and>
   patch_update stub ''000000000000000000000000'' [(''completed'', JStr ''false'')] one_doc
     = ((200, Doc (milk_doc\<lparr>todo_completed := Some True\<rparr>)),
        one_doc\<lparr>db := (1, [milk_doc\<lparr>todo_completed := Some True\<rparr>])\<rparr>) \<and>
   patch_update stub ''1700000000000''
       [(''task'', JObj [(''toString'', JNum (Nonzero ''1''))]), (''completed'', JStr ''false'')] one_todo
     = ((500, Error ''Internal Server Error''), one_todo)"
proof -
  let ?t = "\<lparr>update_task = None, update_completed = Some True, update_priority = None\<rparr>"
  let ?f = "\<lparr>update_task = None, update_completed = Some False, update_priority = None\<rparr>"
  let ?doc = "milk_doc\<lparr>todo_completed := Some True\<rparr>"
  have two: "patch_update stub ''1700000000000'' [(''completed'', JStr ''false'')] two_todos
      = (fst (patch_update stub ''1700000000000'' [(''completed'', JStr ''false'')] two_todos),
         two_todos\<lparr>inMemoryTodos :=
           inMemoryTodos (snd (patch_update stub ''1700000000000'' [(''completed'', JStr ''false'')]
             two_todos))\<rparr>)"
    by (simp add: patch_update_def completed_false_string keys_length_def Let_def)
  have one: "patch_update stub ''1700000000000'' [(''completed'', JNum Zero)] one_todo
      = (fst (patch_update stub ''1700000000000'' [(''completed'', JNum Zero)] one_todo),
         one_todo\<lparr>inMemoryTodos :=
           inMemoryTodos (snd (patch_update stub ''1700000000000'' [(''completed'', JNum Zero)]
             one_todo))\<rparr>)"
    by (simp add: patch_update_def completed_zero keys_length_def Let_def)
  from completed_coerced_by_truthiness [of "[(''completed'', JStr ''false'')]" "JStr ''false''"
      TypeError stub "''1700000000000''" two_todos "''x''" "''x''" ?t milk ?doc "(1, [?doc])"]
  have a: "patch_update stub ''1700000000000'' [(''completed'', JStr ''false'')] two_todos
     = ((200, Todo (milk\<lparr>todo_completed := Some True\<rparr>)),
        two_todos\<lparr>inMemoryTodos := [milk\<lparr>todo_completed := Some True\<rparr>, mum]\<rparr>)"
    by (subst two) (simp add: completed_false_string assign_def milk_def mum_def)
  from completed_coerced_by_truthiness [of "[(''completed'', JNum Zero)]" "JNum Zero"
      TypeError stub "''1700000000000''" one_todo "''x''" "''x''" ?f milk ?doc "(1, [?doc])"]
  have b: "patch_update stub ''1700000000000'' [(''completed'', JNum Zero)] one_todo
     = ((200, Todo (milk\<lparr>todo_completed := Some False\<rparr>)),
        one_todo\<lparr>inMemoryTodos := [milk\<lparr>todo_completed := Some False\<rparr>]\<rparr>)"
    by (subst one) (simp add: completed_zero assign_def milk_def)
  from completed_coerced_by_truthiness [of "[(''completed'', JStr ''false'')]" "JStr ''false''"
      TypeError stub "''000000000000000000000000''" one_doc "''x''" "''x''" ?t milk ?doc "(1, [?doc])"]
  have c: "patch_update stub ''000000000000000000000000'' [(''completed'', JStr ''false'')] one_doc
     = ((200, Doc (milk_doc\<lparr>todo_completed := Some True\<rparr>)),
        one_doc\<lparr>db := (1, [milk_doc\<lparr>todo_completed := Some True\<rparr>])\<rparr>)"
    by (simp add: completed_false_string assign_def milk_doc_def is_object_id_0)
  from completed_coerced_by_truthiness
      [of "[(''task'', JObj [(''toString'', JNum (Nonzero ''1''))]), (''completed'', JStr ''false'')]"
        "JStr ''false''" TypeError stub "''1700000000000''" one_todo "''x''" "''x''" ?t milk ?doc
        "(1, [?doc])"]
  have d: "patch_update stub ''1700000000000''
       [(''task'', JObj [(''toString'', JNum (Nonzero ''1''))]), (''completed'', JStr ''false'')] one_todo
     = ((500, Error ''Internal Server Error''), one_todo)"
    by simp
  from a b c d show ?thesis by simp
qed

text \<open>
  C10 as stated fails when the body also holds a task that is an object with its own
  \<^verbatim>\<open>toString\<close> key: the truthy value \<^verbatim>\<open>"false"\<close> sets nothing, the answer is 500
  and the stored todo still has no \<^verbatim>\<open>completed\<close>.
\<close>

theorem unconvertible_task_completed_counterexample:
  "ToBoolean (JStr ''false'') \<and> inMemoryTodos one_todo = [milk] \<and> todo_completed milk = None \<and>
   patch_update stub ''1700000000000''
       [(''task'', JObj [(''toString'', JNum (Nonzero ''1''))]), (''completed'', JStr ''false'')] one_todo
     = ((500, Error ''Internal Server Error''), one_todo)"
  by (simp add: patch_update_def build_update_def milk_def)

section \<open>Where the in-memory backend departs from the specification\<close>

text \<open>
  C2. The record that the in-memory backend stores and returns for
  \<^verbatim>\<open>POST /add {"task": "Buy milk"}\<close> has an id, the task and the default priority,
  but no \<^verbatim>\<open>completed\<close> property: the object literal of line 62 leaves it out, where
  the schema of the persistent backend defaults it to \<^verbatim>\<open>false\<close>.
\<close>

theorem create_memory_record_lacks_completed:
  "post_add stub 1700000000000 [(''task'', JStr ''Buy milk'')] fresh
     = ((200, Todo \<lparr>todo_id = ''1700000000000'', todo_task = ''Buy milk'', todo_completed = None,
                   todo_priority = ''medium''\<rparr>),
        \<lparr>useDb = False,
         inMemoryTodos = [\<lparr>todo_id = ''1700000000000'', todo_task = ''Buy milk'',
                           todo_completed = None, todo_priority = ''medium''\<rparr>],
         db = (0, [])\<rparr>)"
  by (simp add: post_add_def incoming_priority_def pr_of_def clock_int trim_milk Let_def
      fresh_def start_def)

text \<open>
  C3. After a create, \<^verbatim>\<open>PATCH /update/1700000000000 {"task": "   "}\<close> is answered
  200 and the stored task is the empty string: line 96 trims the task and stores it
  without the test that line 50 applies on create.
\<close>

theorem update_stores_blank_task:
  "handle stub (Patch ''1700000000000'' [(''task'', JStr ''   '')])
       (run stub [Add 1700000000000 [(''task'', JStr ''Buy milk'')]] fresh)
     = ((200, Todo \<lparr>todo_id = ''1700000000000'', todo_task = [], todo_completed = None,
                   todo_priority = ''medium''\<rparr>),
        \<lparr>useDb = False,
         inMemoryTodos = [\<lparr>todo_id = ''1700000000000'', todo_task = [], todo_completed = None,
                           todo_priority = ''medium''\<rparr>],
         db = (0, [])\<rparr>)"
  by (simp add: post_add_def incoming_priority_def pr_of_def clock_int trim_milk Let_def
      fresh_def start_def patch_update_def build_update_def trim_spaces keys_length_def assign_def)

text \<open>
  C4. Two creates handled at the same value of \<^verbatim>\<open>Date.now()\<close> store two todos with
  the same id.
\<close>

theorem same_clock_same_id:
  "map todo_id (inMemoryTodos
      (run stub [Add 1700000000000 [(''task'', JStr ''Buy milk'')],
                 Add 1700000000000 [(''task'', JStr ''Call mum''), (''priority'', JStr ''high'')]]
         fresh))
     = [''1700000000000'', ''1700000000000'']"
  by (simp add: post_add_def incoming_priority_def pr_of_def clock_int trim_milk Let_def
      fresh_def start_def trim_mum lower_high priorities_def)

text \<open>
  C9. In the store that two creates at the same value of \<^verbatim>\<open>Date.now()\<close> leave, one
  \<^verbatim>\<open>PATCH /update/1700000000000 {"completed": true}\<close> is answered 200 with the first
  todo and rewrites the second todo as well.
\<close>

theorem update_rewrites_todos_sharing_id:
  "handle stub (Patch ''1700000000000'' [(''completed'', JBool True)])
       (run stub [Add 1700000000000 [(''task'', JStr ''Buy milk'')],
                  Add 1700000000000 [(''task'', JStr ''Call mum''), (''priority'', JStr ''high'')]]
          fresh)
     = ((200, Todo \<lparr>todo_id = ''1700000000000'', todo_task = ''Buy milk'',
                   todo_completed = Some True, todo_priority = ''medium''\<rparr>),
        \<lparr>useDb = False,
         inMemoryTodos =
           [\<lparr>todo_id = ''1700000000000'', todo_task = ''Buy milk'', todo_completed = Some True,
             todo_priority = ''medium''\<rparr>,
            \<lparr>todo_id = ''1700000000000'', todo_task = ''Call mum'', todo_completed = Some True,
             todo_priority = ''high''\<rparr>],
         db = (0, [])\<rparr>)"
  by (simp add: post_add_def incoming_priority_def pr_of_def clock_int trim_milk trim_mum lower_high
      priorities_def Let_def fresh_def start_def patch_update_def build_update_def keys_length_def
      assign_def)

section \<open>Ids when the clock advances between creates\<close>

text \<open>
  Printing an integer in decimal is injective, so two creates that see different values
  of \<^verbatim>\<open>Date.now()\<close> get different ids.
\<close>

lemma digit_char_code:
  assumes "d < 10"
  shows "of_char (digit_char d) = (48 + d :: nat)"
proof -
  from assms have "d \<in> {0, 1, 2, 3, 4, 5, 6, 7, 8, 9}"
    by auto
  then show ?thesis
    by (auto simp: digit_char_def)
qed

lemma digit_char_inj:
  assumes "a < 10" and "b < 10" and "digit_char a = digit_char b"
  shows "a = b"
proof -
  have "(48 + a :: nat) = of_char (digit_char a)"
    by (rule digit_char_code [OF assms(1), symmetric])
  also have "\<dots> = of_char (digit_char b)"
    by (simp only: assms(3))
  also have "\<dots> = 48 + b"
    by (rule digit_char_code [OF assms(2)])
  finally show ?thesis by simp
qed

lemma digits10_nonempty: "digits10 n \<noteq> []"
  by (subst digits10.simps) simp

lemma digits10_no_minus: "CHR ''-'' \<notin> set (digits10 n)"
proof (induction n rule: digits10.induct)
  case (1 n)
  have d: "digit_char k \<noteq> CHR ''-''" if "k < 10" for k
    using digit_char_code [OF that] by auto
  show ?case
  proof (cases "n < 10")
    case True
    then show ?thesis
      using d [of n] by (subst digits10.simps) auto
  next
    case False
    then show ?thesis
      using 1 d [of "n mod 10"] by (subst digits10.simps) auto
  qed
qed

lemma digits10_inj: "digits10 n = digits10 m \<Longrightarrow> n = m"
proof (induction n arbitrary: m rule: digits10.induct)
  case (1 n)
  show ?case
  proof (cases "n < 10")
    case n: True
    show ?thesis
    proof (cases "m < 10")
      case True
      then show ?thesis
        using n "1.prems" digit_char_inj [of n m]
        by (simp add: digits10.simps [of n] digits10.simps [of m])
    next
      case False
      then show ?thesis
        using n "1.prems" digits10_nonempty [of "m div 10"]
        by (simp add: digits10.simps [of n] digits10.simps [of m])
    qed
  next
    case n: False
    show ?thesis
    proof (cases "m < 10")
      case True
      then show ?thesis
        using n "1.prems" digits10_nonempty [of "n div 10"]
        by (simp add: digits10.simps [of n] digits10.simps [of m])
    next
      case False
      then have "digits10 (n div 10) = digits10 (m div 10)"
        and c: "digit_char (n mod 10) = digit_char (m mod 10)"
        using n "1.prems" by (simp_all add: digits10.simps [of n] digits10.simps [of m])
      then have "n div 10 = m div 10"
        using "1.IH" n by blast
      moreover have "n mod 10 = m mod 10"
        using c by (intro digit_char_inj) simp_all
      ultimately show ?thesis
        by (metis div_mult_mod_eq)
    qed
  qed
qed

lemma int_to_string_inj: "int_to_string a = int_to_string b \<Longrightarrow> a = b"
proof -
  assume eq: "int_to_string a = int_to_string b"
  have neg: False if "x < 0" "\<not> y < 0" "int_to_string x = int_to_string y" for x y
  proof -
    from that have "CHR ''-'' \<in> set (digits10 (nat y))"
      by (simp add: int_to_string_def) (metis list.set_intros(1))
    then show False
      using digits10_no_minus by blast
  qed
  show "a = b"
  proof (cases "a < 0")
    case a: True
    show ?thesis
    proof (cases "b < 0")
      case True
      with a eq have "nat (- a) = nat (- b)"
        by (simp add: int_to_string_def digits10_inj)
      with a True show ?thesis by simp
    next
      case False
      with a eq neg show ?thesis by blast
    qed
  next
    case a: False
    show ?thesis
    proof (cases "b < 0")
      case True
      with a eq neg [of b a] show ?thesis by simp
    next
      case False
      with a eq have "nat a = nat b"
        by (simp add: int_to_string_def digits10_inj)
      with a False show ?thesis by simp
    qed
  qed
qed


text \<open>
  What one request does to the in-memory list: a create leaves it or appends one todo
  (with a non-empty task and the clock as id), a delete leaves it or filters it, an
  update keeps every id, and no request changes the backend flag.
\<close>

lemma post_add_list:
  assumes "\<not> useDb s"
  shows "inMemoryTodos (snd (post_add drv now b s)) = inMemoryTodos s \<or>
         (\<exists>t. inMemoryTodos (snd (post_add drv now b s)) = inMemoryTodos s @ [t] \<and>
              todo_id t = int_to_string now \<and> todo_task t \<noteq> [])"
  using assms by (simp add: post_add_def Let_def split: sum.splits)

lemma delete_list:
  assumes "\<not> useDb s"
  shows "inMemoryTodos (snd (delete_todo drv i s)) = inMemoryTodos s \<or>
         inMemoryTodos (snd (delete_todo drv i s)) = filter (\<lambda>t. todo_id t \<noteq> i) (inMemoryTodos s)"
  using assms by (simp add: delete_todo_def Let_def)

lemma patch_ids:
  assumes "\<not> useDb s"
  shows "map todo_id (inMemoryTodos (snd (patch_update drv i b s))) = map todo_id (inMemoryTodos s)"
proof -
  have "map todo_id (map (\<lambda>t. if todo_id t = i then assign t u else t) xs) = map todo_id xs" for u xs
    by (induction xs) simp_all
  then show ?thesis
    using assms by (simp add: patch_update_def Let_def split: sum.splits)
qed

lemma handle_useDb: "useDb (snd (handle drv r s)) = useDb s"
proof (cases r)
  case Get
  then show ?thesis
    by (simp add: get_todos_def split: sum.splits)
next
  case (Add now b)
  then show ?thesis
    by (simp add: post_add_def Let_def split: sum.splits prod.splits option.splits)
next
  case (Delete i)
  then show ?thesis
    by (simp add: delete_todo_def Let_def split: sum.splits prod.splits option.splits)
next
  case (Patch i b)
  then show ?thesis
    by (simp add: patch_update_def Let_def split: sum.splits prod.splits option.splits)
qed

text \<open>
  Started on an in-memory list with distinct ids, a sequence of requests whose creates see
  pairwise different clocks, none of them printing to an id already stored, ends on a list
  with distinct ids.
\<close>

lemma run_distinct_ids:
  assumes "\<not> useDb s" and "distinct (map todo_id (inMemoryTodos s))" and "distinct (clocks rs)"
    and "\<forall>c \<in> set (clocks rs). int_to_string c \<notin> todo_id ` set (inMemoryTodos s)"
  shows "distinct (map todo_id (inMemoryTodos (run drv rs s)))"
  using assms
proof (induction rs arbitrary: s)
  case Nil
  then show ?case by simp
next
  case (Cons r rs)
  let ?s = "snd (handle drv r s)"
  have db: "\<not> useDb ?s"
    using Cons.prems(1) by (simp add: handle_useDb)
  have rest: "distinct (clocks rs)" "set (clocks rs) \<subseteq> set (clocks (r # rs))"
    using Cons.prems(3) by (cases r; auto)+
  have "distinct (map todo_id (inMemoryTodos ?s)) \<and>
        (\<forall>c \<in> set (clocks rs). int_to_string c \<notin> todo_id ` set (inMemoryTodos ?s))"
  proof (cases r)
    case Get
    then show ?thesis
      using Cons.prems by (simp add: get_todos_def)
  next
    case (Add now b)
    have fresh_id: "int_to_string now \<notin> todo_id ` set (inMemoryTodos s)"
      using Cons.prems(4) Add by simp
    have other: "int_to_string c \<noteq> int_to_string now" if "c \<in> set (clocks rs)" for c
      using that Cons.prems(3) Add int_to_string_inj by auto
    from post_add_list [OF Cons.prems(1), of drv now b] show ?thesis
    proof
      assume "inMemoryTodos (snd (post_add drv now b s)) = inMemoryTodos s"
      then show ?thesis
        using Cons.prems Add by simp
    next
      assume "\<exists>t. inMemoryTodos (snd (post_add drv now b s)) = inMemoryTodos s @ [t] \<and>
                todo_id t = int_to_string now \<and> todo_task t \<noteq> []"
      then obtain t where "inMemoryTodos (snd (post_add drv now b s)) = inMemoryTodos s @ [t]"
        and "todo_id t = int_to_string now"
        by blast
      then show ?thesis
        using Cons.prems Add fresh_id other by auto
    qed
  next
    case (Delete i)
    from delete_list [OF Cons.prems(1), of drv i] show ?thesis
      using Cons.prems Delete by (auto simp: distinct_map_filter)
  next
    case (Patch i b)
    have "todo_id ` set (inMemoryTodos ?s) = todo_id ` set (inMemoryTodos s)"
      using patch_ids [OF Cons.prems(1), of drv i b] Patch by (metis handle.simps(4) set_map)
    then show ?thesis
      using Cons.prems Patch patch_ids [OF Cons.prems(1), of drv i b] by simp
  qed
  then show ?case
    using Cons.IH [OF db _ rest(1)] by simp
qed

lemma distinct_clocks_distinct_ids:
  assumes "distinct (clocks rs)"
  shows "distinct (map todo_id (inMemoryTodos (run drv rs (start False d))))"
  using assms by (intro run_distinct_ids) (simp_all add: start_def)


end
